theory Spec2Isabelle
  imports Complex_Main
begin

section \<open>Shared constants (generators/base.py, lines 19-21)\<close>

definition MAX_CHILDREN_LIMIT :: int where
  "MAX_CHILDREN_LIMIT = 20"

definition MAX_NATIVE_CHILDREN_LIMIT :: int where
  "MAX_NATIVE_CHILDREN_LIMIT = 10"

definition MAX_DEPTH :: int where
  "MAX_DEPTH = 8"

subsection \<open>The assertions of tests/test\_generators.py\<close>

text \<open>
  Each test method of \<open>TestChildLimitsConsistency\<close> is a single \<open>assert\<close>; the test
  passes exactly when the asserted condition holds.
\<close>

definition test_web_child_limit_is_20 :: bool where
  "test_web_child_limit_is_20 = (MAX_CHILDREN_LIMIT = 20)"

definition test_native_child_limit_is_15 :: bool where
  "test_native_child_limit_is_15 = (MAX_NATIVE_CHILDREN_LIMIT = 15)"

section \<open>Python values and built-ins used by the module\<close>

text \<open>
  Exceptions are values: a function of the module that can raise returns
  \<open>py_error + 'a\<close>, with \<open>Inl\<close> for the exception that escapes.
\<close>

datatype py_error = ValueError | IndexError | OverflowError

definition then_py :: "py_error + 'a \<Rightarrow> ('a \<Rightarrow> py_error + 'b) \<Rightarrow> py_error + 'b" where
  "then_py m f = (case m of Inl e \<Rightarrow> Inl e | Inr v \<Rightarrow> f v)"

subsection \<open>Strings\<close>

text \<open>
  A Python \<open>str\<close> is a sequence of code points.  It is modelled as a \<open>string\<close> whose
  characters are read as the code points 0 to 255.  \<open>str_isspace\<close> is \<open>str.isspace\<close>
  on that range, the set \<open>str.strip()\<close> removes; \<open>int_isspace\<close> is the smaller set
  that \<open>int()\<close> skips around a literal (it does not skip the separators 0x1C to 0x1F).
\<close>

definition str_isspace :: "char \<Rightarrow> bool" where
  "str_isspace c = (c \<in> {CHR 0x09, CHR 0x0A, CHR 0x0B, CHR 0x0C, CHR 0x0D,
      CHR 0x1C, CHR 0x1D, CHR 0x1E, CHR 0x1F, CHR 0x20, CHR 0x85, CHR 0xA0})"

definition int_isspace :: "char \<Rightarrow> bool" where
  "int_isspace c = (c \<in> {CHR 0x09, CHR 0x0A, CHR 0x0B, CHR 0x0C, CHR 0x0D,
      CHR 0x20, CHR 0x85, CHR 0xA0})"

definition py_strip :: "string \<Rightarrow> string" where
  "py_strip s = rev (dropWhile str_isspace (rev (dropWhile str_isspace s)))"

definition py_lstrip :: "char \<Rightarrow> string \<Rightarrow> string" where
  "py_lstrip ch s = dropWhile (\<lambda>c. c = ch) s"

definition startswith :: "string \<Rightarrow> string \<Rightarrow> bool" where
  "startswith s p = (take (length p) s = p)"

text \<open>\<open>sub in s\<close> for strings: \<open>sub\<close> occurs in \<open>s\<close> as a contiguous substring.\<close>

fun py_in :: "string \<Rightarrow> string \<Rightarrow> bool" where
  "py_in sub [] = (sub = [])"
| "py_in sub (c # cs) = (startswith (c # cs) sub \<or> py_in sub cs)"

text \<open>
  \<open>s.replace(old, new)\<close>: the occurrences of \<open>old\<close> are found from the left and do
  not overlap; an empty \<open>old\<close> matches before every character and at the end.
\<close>

fun py_replace :: "string \<Rightarrow> string \<Rightarrow> string \<Rightarrow> string" where
  "py_replace old new [] = (if old = [] then new else [])"
| "py_replace old new (c # cs) =
     (if old = [] then new @ c # py_replace old new cs
      else if startswith (c # cs) old
        then new @ py_replace old new (drop (length old - 1) cs)
      else c # py_replace old new cs)"

text \<open>\<open>s.split(sep)\<close> for a separator of one character.\<close>

fun py_split :: "char \<Rightarrow> string \<Rightarrow> string list" where
  "py_split sep [] = [[]]"
| "py_split sep (c # cs) =
     (if c = sep then [] # py_split sep cs
      else (case py_split sep cs of
              [] \<Rightarrow> [[c]]
            | p # ps \<Rightarrow> (c # p) # ps))"

text \<open>\<open>xs[i]\<close> for an index \<open>i \<ge> 0\<close>: out of range raises \<open>IndexError\<close>.\<close>

definition py_index :: "'a list \<Rightarrow> nat \<Rightarrow> py_error + 'a" where
  "py_index xs i = (if i < length xs then Inr (xs ! i) else Inl IndexError)"

subsection \<open>Integer literals: \<open>int(s)\<close> and \<open>int(s, 16)\<close>\<close>

text \<open>
  \<open>digit_value\<close> is the interpreter's digit table: 0 to 9 for the decimal digits, 10 to
  35 for the letters of either case, 37 for every other character.
\<close>

definition digit_value :: "char \<Rightarrow> nat" where
  "digit_value c = (let n = (of_char c :: nat) in
      if 48 \<le> n \<and> n \<le> 57 then n - 48
      else if 97 \<le> n \<and> n \<le> 122 then n - 87
      else if 65 \<le> n \<and> n \<le> 90 then n - 55
      else 37)"

fun double_underscore :: "string \<Rightarrow> bool" where
  "double_underscore (a # b # cs) =
     ((a = CHR ''_'' \<and> b = CHR ''_'') \<or> double_underscore (b # cs))"
| "double_underscore cs = False"

text \<open>
  The run of digits and underscores of a literal is well formed when it is not empty,
  neither starts nor ends with an underscore and has no two underscores in a row.
\<close>

definition digit_run_ok :: "string \<Rightarrow> bool" where
  "digit_run_ok run = (case run of
       [] \<Rightarrow> False
     | c # cs \<Rightarrow> c \<noteq> CHR ''_'' \<and> last run \<noteq> CHR ''_'' \<and> \<not> double_underscore run)"

text \<open>
  The interpreter's default limit on the digits of a literal in a base that is not a
  power of two (\<open>sys.get_int_max_str_digits()\<close>).
\<close>

definition int_max_str_digits :: nat where
  "int_max_str_digits = 4300"

text \<open>
  \<open>py_int base s\<close> is \<open>int(s, base)\<close> for the two bases the module uses, 10 and 16:
  white space, an optional sign, for base 16 an optional \<open>0x\<close> or \<open>0X\<close> (after which
  one underscore is allowed), the digits, white space, and nothing else.  Anything else
  raises \<open>ValueError\<close>.
\<close>

definition py_int :: "nat \<Rightarrow> string \<Rightarrow> py_error + int" where
  "py_int base s =
     (let s1 = dropWhile int_isspace s;
          neg = (take 1 s1 = ''-'');
          s2 = (if take 1 s1 = ''+'' \<or> take 1 s1 = ''-'' then drop 1 s1 else s1);
          s3 = (if base = 16 \<and> (take 2 s2 = ''0x'' \<or> take 2 s2 = ''0X'')
                then (if take 1 (drop 2 s2) = ''_'' then drop 3 s2 else drop 2 s2)
                else s2);
          isdigit = (\<lambda>c. digit_value c < base \<or> c = CHR ''_'');
          run = takeWhile isdigit s3;
          rest = dropWhile isdigit s3;
          ds = filter (\<lambda>c. c \<noteq> CHR ''_'') run
      in if \<not> digit_run_ok run then Inl ValueError
         else if base = 10 \<and> int_max_str_digits < length ds then Inl ValueError
         else if dropWhile int_isspace rest \<noteq> [] then Inl ValueError
         else Inr ((if neg then - 1 else 1)
                    * int (foldl (\<lambda>a c. a * base + digit_value c) 0 ds)))"

subsection \<open>Formatting integers\<close>

definition digit_char :: "nat \<Rightarrow> char" where
  "digit_char d = ''0123456789abcdef'' ! d"

text \<open>The digits of \<open>n\<close> in base \<open>b\<close>, most significant first; \<open>0\<close> is one digit.\<close>

function digits_of :: "nat \<Rightarrow> nat \<Rightarrow> string" where
  "digits_of b n =
     (if n < b \<or> b < 2 then [digit_char n]
      else digits_of b (n div b) @ [digit_char (n mod b)])"
  by pat_completeness auto
termination
  by (relation "measure (\<lambda>(b, n). n)") auto


text \<open>
  \<open>f"{n:02x}"\<close> for an integer: lower-case hexadecimal, padded with zeros after the sign
  to a width of two.  A value outside 0 to 255 is not cut: 256 gives \<open>100\<close>, \<open>-1\<close>
  gives \<open>-1\<close>.
\<close>

definition fmt_02x :: "int \<Rightarrow> string" where
  "fmt_02x n =
     (let sign = (if n < 0 then ''-'' else []);
          body = digits_of 16 (nat \<bar>n\<bar>)
      in sign @ replicate (2 - length sign - length body) CHR ''0'' @ body)"

subsection \<open>Numbers\<close>

text \<open>
  A number of a node record is a Python \<open>int\<close> or a Python \<open>float\<close>.  A float is an
  IEEE 754 double: \<open>Fin q\<close> is the finite double of exact value \<open>q\<close> (\<open>Fin 0\<close> is
  \<open>+0.0\<close>), \<open>NegZero\<close> is \<open>-0.0\<close>.  The arithmetic of doubles rounds the exact
  result to the nearest double, ties to the even significand: \<open>round_double\<close>.
\<close>

datatype pyfloat = Fin rat | NegZero | PosInf | NegInf | NaN

datatype pynum = PInt int | PFloat pyfloat




definition round_half_even :: "rat \<Rightarrow> int" where
  "round_half_even q = (let f = \<lfloor>q\<rfloor>; d = q - of_int f in
      if d < 1 / 2 then f else if 1 / 2 < d then f + 1
      else if even f then f else f + 1)"




text \<open>
  Comparisons of a number with an integer constant: \<open>x < k\<close>, \<open>x > k\<close>, \<open>x == k\<close>.
  Python compares an \<open>int\<close> and a \<open>float\<close> by their exact values; every comparison
  with a NaN is false.
\<close>

fun num_lt :: "pynum \<Rightarrow> int \<Rightarrow> bool" where
  "num_lt (PInt n) k = (n < k)"
| "num_lt (PFloat (Fin q)) k = (q < of_int k)"
| "num_lt (PFloat NegZero) k = (0 < k)"
| "num_lt (PFloat PosInf) k = False"
| "num_lt (PFloat NegInf) k = True"
| "num_lt (PFloat NaN) k = False"

fun num_gt :: "pynum \<Rightarrow> int \<Rightarrow> bool" where
  "num_gt (PInt n) k = (k < n)"
| "num_gt (PFloat (Fin q)) k = (of_int k < q)"
| "num_gt (PFloat NegZero) k = (k < 0)"
| "num_gt (PFloat PosInf) k = True"
| "num_gt (PFloat NegInf) k = False"
| "num_gt (PFloat NaN) k = False"

fun num_eq :: "pynum \<Rightarrow> int \<Rightarrow> bool" where
  "num_eq (PInt n) k = (n = k)"
| "num_eq (PFloat (Fin q)) k = (q = of_int k)"
| "num_eq (PFloat NegZero) k = (k = 0)"
| "num_eq (PFloat f) k = False"



text \<open>
  A dictionary with string keys is an association list; \<open>d.get(k, default)\<close> is
  \<open>dict_get d k default\<close>, and a dictionary is true when it is not empty.
\<close>

type_synonym 'v dict = "(string \<times> 'v) list"

definition dict_get :: "'v dict \<Rightarrow> string \<Rightarrow> 'v \<Rightarrow> 'v" where
  "dict_get d k dflt = (case map_of d k of None \<Rightarrow> dflt | Some v \<Rightarrow> v)"

text \<open>An optional field of a typed record, read with a default.\<close>

definition get_or :: "'v option \<Rightarrow> 'v \<Rightarrow> 'v" where
  "get_or field dflt = (case field of None \<Rightarrow> dflt | Some v \<Rightarrow> v)"

section \<open>Data structures\<close>

record ColorValue =
  cv_r :: pynum
  cv_g :: pynum
  cv_b :: pynum
  cv_a :: pynum


section \<open>Color conversion helpers\<close>

text \<open>
  The opaque branch of \<open>ColorValue.hex\<close> and of \<open>rgba_to_hex\<close>, on the integer
  channels: \<open>f"#{ri:02x}{gi:02x}{bi:02x}"\<close>.
\<close>

definition hex_string :: "int \<Rightarrow> int \<Rightarrow> int \<Rightarrow> string" where
  "hex_string ri gi bi = ''#'' @ fmt_02x ri @ fmt_02x gi @ fmt_02x bi"

text \<open>
  \<open>hex_to_rgb\<close> (lines 229-240).  The three elements of the returned tuple are
  evaluated from left to right, so the first failing one decides the exception.
\<close>

definition hex_to_rgb :: "string \<Rightarrow> py_error + (int \<times> int \<times> int)" where
  "hex_to_rgb hex_color0 =
     (let hex_color = py_strip hex_color0 in
      if startswith hex_color ''rgba'' then
        (let parts = py_split CHR '','' (py_replace '')'' [] (py_replace ''rgba('' [] hex_color)) in
         then_py (py_index parts 0) (\<lambda>p0. then_py (py_int 10 (py_strip p0)) (\<lambda>r.
         then_py (py_index parts 1) (\<lambda>p1. then_py (py_int 10 (py_strip p1)) (\<lambda>g.
         then_py (py_index parts 2) (\<lambda>p2. then_py (py_int 10 (py_strip p2)) (\<lambda>b.
           Inr (r, g, b))))))))
      else
        (let hex_color1 = py_lstrip CHR ''#'' hex_color;
             hex_color2 = (if length hex_color1 = 3
                           then concat (map (\<lambda>c. [c, c]) hex_color1) else hex_color1)
         in if 6 \<le> length hex_color2 then
              then_py (py_int 16 (take 2 hex_color2)) (\<lambda>r.
              then_py (py_int 16 (take 2 (drop 2 hex_color2))) (\<lambda>g.
              then_py (py_int 16 (take 2 (drop 4 hex_color2))) (\<lambda>b.
                Inr (r, g, b))))
            else Inr (0, 0, 0)))"

text \<open>
  The hex portion that \<open>hex_to_rgb\<close> reads when the string does not start with
  \<open>rgba\<close>; a hexadecimal digit of either case; the value of a pair of them.
\<close>

definition hex_portion :: "string \<Rightarrow> string" where
  "hex_portion s = py_lstrip CHR ''#'' (py_strip s)"

definition is_hex_digit :: "char \<Rightarrow> bool" where
  "is_hex_digit c = (digit_value c < 16)"

definition hex_pair :: "char \<Rightarrow> char \<Rightarrow> int" where
  "hex_pair c1 c2 = int (digit_value c1 * 16 + digit_value c2)"




text \<open>\<open>ColorValue.from_figma\<close> (lines 69-74); the default of \<open>opacity\<close> is \<open>1.0\<close>.\<close>

definition from_figma :: "pynum dict \<Rightarrow> pynum \<Rightarrow> ColorValue" where
  "from_figma color opacity =
     \<lparr>cv_r = dict_get color ''r'' (PInt 0), cv_g = dict_get color ''g'' (PInt 0),
      cv_b = dict_get color ''b'' (PInt 0),
      cv_a = (if num_lt opacity 1 then opacity else dict_get color ''a'' (PFloat (Fin 1)))\<rparr>"


section \<open>The intermediate representation\<close>

record GradientStop =
  gs_color :: ColorValue
  gs_position :: pynum

record GradientDef =
  gd_type :: string
  gd_stops :: "GradientStop list"
  gd_handle_positions :: "pynum dict list"
  gd_opacity :: pynum

record FillLayer =
  fl_type :: string
  fl_color :: "ColorValue option"
  fl_gradient :: "GradientDef option"
  fl_image_ref :: "string option"
  fl_scale_mode :: string
  fl_opacity :: pynum
  fl_visible :: bool

record StrokeInfo =
  si_weight :: pynum
  si_colors :: "FillLayer list"
  si_align :: string
  si_cap :: string
  si_join :: string
  si_dashes :: "pynum list"
  si_individual_weights :: "pynum dict option"

record CornerRadii =
  top_left :: pynum
  top_right :: pynum
  bottom_right :: pynum
  bottom_left :: pynum

record ShadowEffect =
  se_type :: string
  se_color :: ColorValue
  se_offset_x :: pynum
  se_offset_y :: pynum
  se_radius :: pynum
  se_spread :: pynum

record BlurEffect =
  be_type :: string
  be_radius :: pynum

record TextStyle =
  font_family :: string
  font_size :: pynum
  font_weight :: pynum
  line_height :: "pynum option"
  letter_spacing :: pynum
  text_align :: string
  text_case :: string
  text_decoration :: string
  ts_color :: "ColorValue option"
  ts_gradient :: "GradientDef option"
  max_lines :: "pynum option"
  truncation :: string

section \<open>Node records\<close>

text \<open>
  A node record is a dictionary read from a design document.  It is modelled by typed
  records: every key the parsers read is a field that is absent (\<open>None\<close>) or holds a
  value of the type the document format gives it.  A color and a handle position are
  dictionaries of numbers.
\<close>

record stop_record =
  sr_color :: "pynum dict option"
  sr_position :: "pynum option"

text \<open>An entry of \<open>fills\<close> or of \<open>strokes\<close>.\<close>

record paint =
  visible :: "bool option"
  paint_type :: "string option"
  opacity :: "pynum option"
  color :: "pynum dict option"
  gradientStops :: "stop_record list option"
  gradientHandlePositions :: "pynum dict list option"
  imageRef :: "string option"
  scaleMode :: "string option"

record effect =
  ef_visible :: "bool option"
  ef_type :: "string option"
  ef_color :: "pynum dict option"
  ef_offset :: "pynum dict option"
  ef_radius :: "pynum option"
  ef_spread :: "pynum option"

record style_record =
  fontFamily :: "string option"
  fontSize :: "pynum option"
  fontWeight :: "pynum option"
  lineHeightPx :: "pynum option"
  letterSpacing :: "pynum option"
  textAlignHorizontal :: "string option"
  textCase :: "string option"
  textDecoration :: "string option"
  maxLines :: "pynum option"
  textTruncation :: "string option"

record node =
  fills :: "paint list option"
  strokes :: "paint list option"
  strokeWeight :: "pynum option"
  strokeDashes :: "pynum list option"
  strokeAlign :: "string option"
  strokeCap :: "string option"
  strokeJoin :: "string option"
  individualStrokeWeights :: "pynum dict option"
  rectangleCornerRadii :: "pynum list option"
  cornerRadius :: "pynum option"
  effects :: "effect list option"
  style :: "style_record option"

section \<open>Parsers\<close>

text \<open>
  A \<open>for\<close> loop that appends to a list is a recursion over the list it reads, with the
  list it builds as an accumulator; \<open>continue\<close> is the recursive call with the
  accumulator unchanged.

  The three parsers of paints build a gradient with the same statements: the loop over
  \<open>gradientStops\<close> and the construction of the \<open>GradientDef\<close>.
\<close>

fun gradient_stops :: "stop_record list \<Rightarrow> GradientStop list \<Rightarrow> GradientStop list" where
  "gradient_stops [] stops = stops"
| "gradient_stops (s # rest) stops =
     (let c = get_or (sr_color s) [] in
      gradient_stops rest (stops @
        [\<lparr>gs_color = \<lparr>cv_r = dict_get c ''r'' (PInt 0), cv_g = dict_get c ''g'' (PInt 0),
                      cv_b = dict_get c ''b'' (PInt 0), cv_a = dict_get c ''a'' (PInt 1)\<rparr>,
          gs_position = get_or (sr_position s) (PInt 0)\<rparr>]))"

definition gradient_def :: "string \<Rightarrow> paint \<Rightarrow> GradientDef" where
  "gradient_def t p =
     \<lparr>gd_type = py_replace ''GRADIENT_'' [] t,
      gd_stops = gradient_stops (get_or (gradientStops p) []) [],
      gd_handle_positions = get_or (gradientHandlePositions p) [],
      gd_opacity = get_or (opacity p) (PFloat (Fin 1))\<rparr>"

subsection \<open>\<open>parse_fills\<close> (lines 247-283)\<close>

definition fill_layer :: "paint \<Rightarrow> bool \<Rightarrow> FillLayer" where
  "fill_layer fill vis =
     (let fill_type = get_or (paint_type fill) [];
          layer = \<lparr>fl_type = fill_type, fl_color = None, fl_gradient = None,
                   fl_image_ref = None, fl_scale_mode = ''FILL'',
                   fl_opacity = get_or (opacity fill) (PFloat (Fin 1)), fl_visible = vis\<rparr>
      in if fill_type = ''SOLID'' then
           layer\<lparr>fl_color := Some (from_figma (get_or (color fill) [])
                                     (get_or (opacity fill) (PFloat (Fin 1))))\<rparr>
         else if py_in ''GRADIENT'' fill_type then
           layer\<lparr>fl_gradient := Some (gradient_def fill_type fill)\<rparr>
         else if fill_type = ''IMAGE'' then
           layer\<lparr>fl_image_ref := Some (get_or (imageRef fill) []),
                 fl_scale_mode := get_or (scaleMode fill) ''FILL''\<rparr>
         else layer)"

fun parse_fills_loop :: "paint list \<Rightarrow> FillLayer list \<Rightarrow> FillLayer list" where
  "parse_fills_loop [] res = res"
| "parse_fills_loop (fill # rest) res =
     (let vis = get_or (visible fill) True in
      if \<not> vis then parse_fills_loop rest res
      else parse_fills_loop rest (res @ [fill_layer fill vis]))"

definition parse_fills :: "node \<Rightarrow> FillLayer list" where
  "parse_fills nd = parse_fills_loop (get_or (fills nd) []) []"

subsection \<open>\<open>parse_stroke\<close> (lines 286-334)\<close>

definition stroke_layer :: "paint \<Rightarrow> FillLayer" where
  "stroke_layer s =
     (let s_type = get_or (paint_type s) [];
          layer = \<lparr>fl_type = s_type, fl_color = None, fl_gradient = None,
                   fl_image_ref = None, fl_scale_mode = ''FILL'',
                   fl_opacity = get_or (opacity s) (PFloat (Fin 1)), fl_visible = True\<rparr>
      in if s_type = ''SOLID'' then
           layer\<lparr>fl_color := Some (from_figma (get_or (color s) [])
                                     (get_or (opacity s) (PFloat (Fin 1))))\<rparr>
         else if py_in ''GRADIENT'' s_type then
           layer\<lparr>fl_gradient := Some (gradient_def s_type s)\<rparr>
         else layer)"

fun parse_stroke_loop :: "paint list \<Rightarrow> FillLayer list \<Rightarrow> FillLayer list" where
  "parse_stroke_loop [] colors = colors"
| "parse_stroke_loop (s # rest) colors =
     (if \<not> get_or (visible s) True then parse_stroke_loop rest colors
      else parse_stroke_loop rest (colors @ [stroke_layer s]))"

definition parse_stroke :: "node \<Rightarrow> StrokeInfo option" where
  "parse_stroke nd =
     (let strokes_list = get_or (strokes nd) [];
          weight = get_or (strokeWeight nd) (PInt 0)
      in if strokes_list = [] \<or> num_eq weight 0 then None
         else let colors = parse_stroke_loop strokes_list [] in
           if colors = [] then None
           else Some
             \<lparr>si_weight = weight, si_colors = colors,
              si_align = get_or (strokeAlign nd) ''INSIDE'',
              si_cap = get_or (strokeCap nd) ''NONE'',
              si_join = get_or (strokeJoin nd) ''MITER'',
              si_dashes = get_or (strokeDashes nd) [],
              si_individual_weights =
                (case individualStrokeWeights nd of
                   None \<Rightarrow> None
                 | Some iw \<Rightarrow>
                     if iw = [] then None
                     else Some [(''top'', dict_get iw ''top'' (PInt 0)),
                                (''right'', dict_get iw ''right'' (PInt 0)),
                                (''bottom'', dict_get iw ''bottom'' (PInt 0)),
                                (''left'', dict_get iw ''left'' (PInt 0))])\<rparr>)"

subsection \<open>\<open>parse_corners\<close> (lines 337-346)\<close>

text \<open>
  \<open>radii\<close> is true when the key is present with a list that is not empty.  A list of
  length 4 has the elements 0 to 3 that are read.
\<close>

definition parse_corners :: "node \<Rightarrow> CornerRadii option" where
  "parse_corners nd =
     (let radii = get_or (rectangleCornerRadii nd) [] in
      if radii \<noteq> [] \<and> length radii = 4 then
        Some \<lparr>top_left = radii ! 0, top_right = radii ! 1,
              bottom_right = radii ! 2, bottom_left = radii ! 3\<rparr>
      else let cr = get_or (cornerRadius nd) (PInt 0) in
        if num_gt cr 0 then
          Some \<lparr>top_left = cr, top_right = cr, bottom_right = cr, bottom_left = cr\<rparr>
        else None)"

subsection \<open>\<open>parse_effects\<close> (lines 349-370)\<close>

definition shadow_effect :: "effect \<Rightarrow> string \<Rightarrow> ShadowEffect" where
  "shadow_effect e e_type =
     (let c = get_or (ef_color e) [];
          offset = get_or (ef_offset e) [(''x'', PInt 0), (''y'', PInt 0)]
      in \<lparr>se_type = e_type,
          se_color = \<lparr>cv_r = dict_get c ''r'' (PInt 0), cv_g = dict_get c ''g'' (PInt 0),
                      cv_b = dict_get c ''b'' (PInt 0),
                      cv_a = dict_get c ''a'' (PFloat (Fin (1 / 4)))\<rparr>,
          se_offset_x = dict_get offset ''x'' (PInt 0),
          se_offset_y = dict_get offset ''y'' (PInt 0),
          se_radius = get_or (ef_radius e) (PInt 0),
          se_spread = get_or (ef_spread e) (PInt 0)\<rparr>)"

definition blur_effect :: "effect \<Rightarrow> string \<Rightarrow> BlurEffect" where
  "blur_effect e e_type = \<lparr>be_type = e_type, be_radius = get_or (ef_radius e) (PInt 0)\<rparr>"

fun parse_effects_loop ::
  "effect list \<Rightarrow> ShadowEffect list \<Rightarrow> BlurEffect list \<Rightarrow> ShadowEffect list \<times> BlurEffect list"
where
  "parse_effects_loop [] shadows blurs = (shadows, blurs)"
| "parse_effects_loop (e # rest) shadows blurs =
     (if \<not> get_or (ef_visible e) True then parse_effects_loop rest shadows blurs
      else let e_type = get_or (ef_type e) [] in
        if e_type = ''DROP_SHADOW'' \<or> e_type = ''INNER_SHADOW'' then
          parse_effects_loop rest (shadows @ [shadow_effect e e_type]) blurs
        else if e_type = ''LAYER_BLUR'' \<or> e_type = ''BACKGROUND_BLUR'' then
          parse_effects_loop rest shadows (blurs @ [blur_effect e e_type])
        else parse_effects_loop rest shadows blurs)"

definition parse_effects :: "node \<Rightarrow> ShadowEffect list \<times> BlurEffect list" where
  "parse_effects nd = parse_effects_loop (get_or (effects nd) []) [] []"

subsection \<open>\<open>parse_text_style\<close> (lines 393-436)\<close>

text \<open>
  The scan of the fills: \<open>text_color\<close> and \<open>text_gradient\<close> start as \<open>None\<close>, and the
  loop ends at the first \<open>break\<close>.
\<close>

fun text_fill_scan :: "paint list \<Rightarrow> ColorValue option \<times> GradientDef option" where
  "text_fill_scan [] = (None, None)"
| "text_fill_scan (fill # rest) =
     (if \<not> get_or (visible fill) True then text_fill_scan rest
      else if paint_type fill = Some ''SOLID'' then
        (Some (from_figma (get_or (color fill) []) (get_or (opacity fill) (PFloat (Fin 1)))),
         None)
      else if py_in ''GRADIENT'' (get_or (paint_type fill) []) then
        (None, Some (gradient_def (get_or (paint_type fill) []) fill))
      else text_fill_scan rest)"

definition parse_text_style :: "node \<Rightarrow> TextStyle" where
  "parse_text_style nd =
     (let st = get_or (style nd)
                 \<lparr>fontFamily = None, fontSize = None, fontWeight = None,
                  lineHeightPx = None, letterSpacing = None, textAlignHorizontal = None,
                  textCase = None, textDecoration = None, maxLines = None,
                  textTruncation = None\<rparr>;
          (text_color, text_gradient) = text_fill_scan (get_or (fills nd) [])
      in \<lparr>font_family = get_or (fontFamily st) [],
          font_size = get_or (fontSize st) (PInt 16),
          font_weight = get_or (fontWeight st) (PInt 400),
          line_height = lineHeightPx st,
          letter_spacing = get_or (letterSpacing st) (PInt 0),
          text_align = get_or (textAlignHorizontal st) ''LEFT'',
          text_case = get_or (textCase st) ''ORIGINAL'',
          text_decoration = get_or (textDecoration st) ''NONE'',
          ts_color = text_color,
          ts_gradient = text_gradient,
          max_lines = maxLines st,
          truncation = get_or (textTruncation st) ''DISABLED''\<rparr>)"

text \<open>The two type tests of \<open>parse_effects\<close>, on the entry.\<close>

definition is_shadow :: "effect \<Rightarrow> bool" where
  "is_shadow e = (ef_type e = Some ''DROP_SHADOW'' \<or> ef_type e = Some ''INNER_SHADOW'')"

definition is_blur :: "effect \<Rightarrow> bool" where
  "is_blur e = (ef_type e = Some ''LAYER_BLUR'' \<or> ef_type e = Some ''BACKGROUND_BLUR'')"

section \<open>Notions used in the properties\<close>





section \<open>Example records\<close>

text \<open>The dictionary \<open>{}\<close> as a node, as a paint and as an effect: every key is absent.\<close>

definition empty_node :: node where
  "empty_node =
     \<lparr>fills = None, strokes = None, strokeWeight = None, strokeDashes = None,
      strokeAlign = None, strokeCap = None, strokeJoin = None,
      individualStrokeWeights = None, rectangleCornerRadii = None, cornerRadius = None,
      effects = None, style = None\<rparr>"

definition empty_paint :: paint where
  "empty_paint =
     \<lparr>visible = None, paint_type = None, opacity = None, color = None,
      gradientStops = None, gradientHandlePositions = None, imageRef = None,
      scaleMode = None\<rparr>"

definition empty_effect :: effect where
  "empty_effect =
     \<lparr>ef_visible = None, ef_type = None, ef_color = None, ef_offset = None,
      ef_radius = None, ef_spread = None\<rparr>"

text \<open>\<open>{"type": "SOLID", "color": {"r": 1, "g": 0, "b": 0}}\<close> and the same paint hidden.\<close>

definition red_paint :: paint where
  "red_paint = empty_paint\<lparr>paint_type := Some ''SOLID'',
     color := Some [(''r'', PInt 1), (''g'', PInt 0), (''b'', PInt 0)]\<rparr>"

definition hidden_paint :: paint where
  "hidden_paint = red_paint\<lparr>visible := Some False\<rparr>"

text \<open>\<open>{"type": "IMAGE", "imageRef": "img"}\<close>.\<close>

definition image_paint :: paint where
  "image_paint = empty_paint\<lparr>paint_type := Some ''IMAGE'', imageRef := Some ''img''\<rparr>"

definition gradient_paint :: paint where
  "gradient_paint = empty_paint\<lparr>paint_type := Some ''GRADIENT_LINEAR''\<rparr>"

definition hidden_shadow :: effect where
  "hidden_shadow = empty_effect\<lparr>ef_visible := Some False, ef_type := Some ''DROP_SHADOW''\<rparr>"

definition layer_blur :: effect where
  "layer_blur = empty_effect\<lparr>ef_type := Some ''LAYER_BLUR'', ef_radius := Some (PInt 4)\<rparr>"


section \<open>Properties\<close>

subsection \<open>Child-count constants\<close>

text \<open>
  C1. The claim is that the web child-count constant is 20 and the native child-count
  constant is 15, as the test suite asserts.  The module defines the native constant
  as 10, so the web assertion passes and the native assertion of the module's own test
  suite fails.
\<close>

theorem native_child_limit_is_10_not_15:
  "MAX_CHILDREN_LIMIT = 20 \<and> MAX_NATIVE_CHILDREN_LIMIT = 10
   \<and> MAX_NATIVE_CHILDREN_LIMIT \<noteq> 15
   \<and> test_web_child_limit_is_20 \<and> \<not> test_native_child_limit_is_15"
  by (simp add: MAX_CHILDREN_LIMIT_def MAX_NATIVE_CHILDREN_LIMIT_def
      test_web_child_limit_is_20_def test_native_child_limit_is_15_def)

subsection \<open>Hexadecimal digits\<close>

lemma nibble_cases:
  assumes "a < (16::nat)"
  shows "a \<in> {0, 1, 2, 3, 4, 5, 6, 7, 8, 9, 10, 11, 12, 13, 14, 15}"
  using assms by (simp only: insert_iff empty_iff) presburger

lemma digit_value_digit_char: "a < 16 \<Longrightarrow> digit_value (digit_char a) = a"
  by (drule nibble_cases) (auto simp: digit_char_def digit_value_def)

lemma digit_char_plain:
  assumes "a < 16"
  shows "\<not> int_isspace (digit_char a)" "\<not> str_isspace (digit_char a)"
    "digit_char a \<noteq> CHR ''_''" "digit_char a \<noteq> CHR ''+''" "digit_char a \<noteq> CHR ''-''"
    "digit_char a \<noteq> CHR ''#''" "digit_char a \<noteq> CHR ''x''" "digit_char a \<noteq> CHR ''X''"
    "digit_char a \<noteq> CHR ''r''"
  using nibble_cases [OF assms]
  by (auto simp: digit_char_def int_isspace_def str_isspace_def)


lemma digits_of_16_byte:
  assumes "n < 256"
  shows "replicate (2 - length (digits_of 16 n)) CHR ''0'' @ digits_of 16 n
         = [digit_char (n div 16), digit_char (n mod 16)]"
proof (cases "n < 16")
  case True
  then show ?thesis by (simp add: digit_char_def)
next
  case False
  with assms have d: "n div 16 < 16" by simp
  have "digits_of 16 n = digits_of 16 (n div 16) @ [digit_char (n mod 16)]"
    using False by (subst digits_of.simps) simp
  also have "digits_of 16 (n div 16) = [digit_char (n div 16)]"
    using d by (subst digits_of.simps) simp
  finally show ?thesis by simp
qed

lemma fmt_02x_byte:
  assumes "0 \<le> n" "n \<le> 255"
  shows "fmt_02x n = [digit_char (nat n div 16), digit_char (nat n mod 16)]"
proof -
  have "nat \<bar>n\<bar> = nat n" "nat n < 256" using assms by simp_all
  then show ?thesis
    using assms digits_of_16_byte [of "nat n"] by (simp add: fmt_02x_def Let_def)
qed

lemma py_int_16_pair:
  assumes "a < 16" "b < 16"
  shows "py_int 16 [digit_char a, digit_char b] = Inr (int (a * 16 + b))"
  using assms digit_char_plain [OF assms(1)] digit_char_plain [OF assms(2)]
  by (simp add: py_int_def Let_def digit_value_digit_char digit_run_ok_def)

lemma py_int_16_fmt_02x:
  assumes "0 \<le> n" "n \<le> 255"
  shows "py_int 16 (fmt_02x n) = Inr n"
proof -
  have a: "nat n div 16 < 16" and b: "nat n mod 16 < 16" using assms by simp_all
  have "int (nat n div 16 * 16 + nat n mod 16) = n" using assms by simp
  then show ?thesis
    using py_int_16_pair [OF a b] fmt_02x_byte [OF assms] by simp
qed

text \<open>The string of three channels in 0 to 255: a hash sign and six hexadecimal digits.\<close>

lemma hex_string_bytes:
  assumes "0 \<le> r" "r \<le> 255" "0 \<le> g" "g \<le> 255" "0 \<le> b" "b \<le> 255"
  shows "hex_string r g b =
     [CHR ''#'', digit_char (nat r div 16), digit_char (nat r mod 16),
      digit_char (nat g div 16), digit_char (nat g mod 16),
      digit_char (nat b div 16), digit_char (nat b mod 16)]"
  using assms by (simp add: hex_string_def fmt_02x_byte)

lemma hex_to_rgb_digits:
  assumes "a1 < 16" "a2 < 16" "a3 < 16" "a4 < 16" "a5 < 16" "a6 < 16"
  shows "hex_to_rgb [CHR ''#'', digit_char a1, digit_char a2, digit_char a3,
                     digit_char a4, digit_char a5, digit_char a6]
         = Inr (int (a1 * 16 + a2), int (a3 * 16 + a4), int (a5 * 16 + a6))"
proof -
  let ?s = "[CHR ''#'', digit_char a1, digit_char a2, digit_char a3,
             digit_char a4, digit_char a5, digit_char a6]"
  have strip: "py_strip ?s = ?s"
    using digit_char_plain(2) [OF assms(6)]
    by (simp add: py_strip_def str_isspace_def)
  have lstrip: "py_lstrip CHR ''#'' ?s = tl ?s"
    using digit_char_plain(6) [OF assms(1)] by (simp add: py_lstrip_def)
  have no_rgba: "\<not> startswith ?s ''rgba''"
    by (simp add: startswith_def)
  show ?thesis
    unfolding hex_to_rgb_def Let_def strip
    using no_rgba lstrip
    by (simp add: then_py_def py_int_16_pair assms)
qed

lemma hex_to_rgb_roundtrip:
  assumes "0 \<le> r" "r \<le> 255" "0 \<le> g" "g \<le> 255" "0 \<le> b" "b \<le> 255"
  shows "hex_to_rgb (hex_string r g b) = Inr (r, g, b)"
proof -
  have "hex_to_rgb (hex_string r g b) =
        Inr (int (nat r div 16 * 16 + nat r mod 16),
             int (nat g div 16 * 16 + nat g mod 16),
             int (nat b div 16 * 16 + nat b mod 16))"
    unfolding hex_string_bytes [OF assms]
    using assms by (intro hex_to_rgb_digits) simp_all
  then show ?thesis using assms by simp
qed

subsection \<open>\<open>hex_to_rgb\<close>\<close>

text \<open>
  C3. For every triple of integers in 0 to 255, \<open>hex_to_rgb\<close> applied to the opaque
  rendering \<open>#rrggbb\<close> of the triple, as the hex rule of \<open>ColorValue\<close> writes it,
  returns the triple.
\<close>

theorem hex_to_rgb_inverts_hex_string:
  assumes "0 \<le> r" "r \<le> 255" "0 \<le> g" "g \<le> 255" "0 \<le> b" "b \<le> 255"
  shows "hex_to_rgb (hex_string r g b) = Inr (r, g, b)"
  using assms by (rule hex_to_rgb_roundtrip)

theorem hex_to_rgb_inverts_hex_string_witness:
  "hex_string 255 128 0 = ''#ff8000'' \<and> hex_to_rgb ''#ff8000'' = Inr (255, 128, 0)"
proof -
  have h: "hex_string 255 128 0 = ''#ff8000''"
    by (simp add: hex_string_bytes digit_char_def)
  show ?thesis
    using hex_to_rgb_inverts_hex_string [of 255 128 0] h by simp
qed

text \<open>
  C2. The claim is that \<open>hex_to_rgb\<close> returns a triple for every string and never
  raises.  It raises \<open>ValueError\<close> on a string of six characters that are not
  hexadecimal digits, and \<open>IndexError\<close> on an \<open>rgba(\<close> string with fewer than three
  fields.
\<close>

theorem hex_to_rgb_raises:
  "hex_to_rgb ''zzzzzz'' = Inl ValueError \<and> hex_to_rgb ''rgba(1, 2'' = Inl IndexError"
  by (simp add: hex_to_rgb_def py_strip_def str_isspace_def startswith_def py_lstrip_def
      py_int_def then_py_def int_isspace_def digit_value_def digit_run_ok_def py_index_def
      int_max_str_digits_def)

lemma int_isspace_digit_value: "int_isspace c \<Longrightarrow> digit_value c = 37"
  by (auto simp: int_isspace_def digit_value_def)

lemma is_hex_digit_plain:
  assumes "is_hex_digit c"
  shows "\<not> int_isspace c" "c \<noteq> CHR ''_''" "c \<noteq> CHR ''+''" "c \<noteq> CHR ''-''"
    "c \<noteq> CHR ''x''" "c \<noteq> CHR ''X''"
proof -
  show "\<not> int_isspace c" using assms int_isspace_digit_value [of c] by (auto simp: is_hex_digit_def)
  show "c \<noteq> CHR ''_''" using assms by (auto simp: is_hex_digit_def digit_value_def)
  show "c \<noteq> CHR ''+''" using assms by (auto simp: is_hex_digit_def digit_value_def)
  show "c \<noteq> CHR ''-''" using assms by (auto simp: is_hex_digit_def digit_value_def)
  show "c \<noteq> CHR ''x''" using assms by (auto simp: is_hex_digit_def digit_value_def)
  show "c \<noteq> CHR ''X''" using assms by (auto simp: is_hex_digit_def digit_value_def)
qed

lemma py_int_16_hex_pair:
  assumes "is_hex_digit c1" "is_hex_digit c2"
  shows "py_int 16 [c1, c2] = Inr (hex_pair c1 c2)"
  using assms is_hex_digit_plain [OF assms(1)] is_hex_digit_plain [OF assms(2)]
  by (simp add: py_int_def Let_def digit_run_ok_def hex_pair_def is_hex_digit_def)

text \<open>
  C2, as amended.  \<open>hex_to_rgb\<close> returns a triple and does not raise on a string
  that is not of a recognised form (it does not start with \<open>rgba\<close> once trimmed, and
  its hex portion has neither 3 nor at least 6 characters), where the triple is
  \<open>(0, 0, 0)\<close>; on a string whose hex portion is 3 hexadecimal digits, or starts with
  6 hexadecimal digits, where the triple is the value of the three pairs; and on a
  string that starts with \<open>rgba\<close> whose first three fields between commas are integer
  literals, where the triple is their values.
\<close>

theorem hex_to_rgb_returns:
  "(\<not> startswith (py_strip s) ''rgba'' \<and> length (hex_portion s) \<noteq> 3
      \<and> length (hex_portion s) < 6
      \<longrightarrow> hex_to_rgb s = Inr (0, 0, 0))
   \<and> (\<not> startswith (py_strip s) ''rgba''
      \<and> hex_portion s = c1 # c2 # c3 # c4 # c5 # c6 # rest
      \<and> is_hex_digit c1 \<and> is_hex_digit c2 \<and> is_hex_digit c3
      \<and> is_hex_digit c4 \<and> is_hex_digit c5 \<and> is_hex_digit c6
      \<longrightarrow> hex_to_rgb s = Inr (hex_pair c1 c2, hex_pair c3 c4, hex_pair c5 c6))
   \<and> (\<not> startswith (py_strip s) ''rgba''
      \<and> hex_portion s = [d1, d2, d3]
      \<and> is_hex_digit d1 \<and> is_hex_digit d2 \<and> is_hex_digit d3
      \<longrightarrow> hex_to_rgb s = Inr (hex_pair d1 d1, hex_pair d2 d2, hex_pair d3 d3))
   \<and> (startswith (py_strip s) ''rgba''
      \<and> py_split CHR '','' (py_replace '')'' [] (py_replace ''rgba('' [] (py_strip s)))
          = p1 # p2 # p3 # ps
      \<and> py_int 10 (py_strip p1) = Inr r \<and> py_int 10 (py_strip p2) = Inr g
      \<and> py_int 10 (py_strip p3) = Inr b
      \<longrightarrow> hex_to_rgb s = Inr (r, g, b))"
proof (intro conjI impI)
  assume "\<not> startswith (py_strip s) ''rgba'' \<and> length (hex_portion s) \<noteq> 3
      \<and> length (hex_portion s) < 6"
  then show "hex_to_rgb s = Inr (0, 0, 0)"
    by (simp add: hex_to_rgb_def Let_def hex_portion_def)
next
  assume a: "\<not> startswith (py_strip s) ''rgba''
      \<and> hex_portion s = c1 # c2 # c3 # c4 # c5 # c6 # rest
      \<and> is_hex_digit c1 \<and> is_hex_digit c2 \<and> is_hex_digit c3
      \<and> is_hex_digit c4 \<and> is_hex_digit c5 \<and> is_hex_digit c6"
  then have h: "py_lstrip CHR ''#'' (py_strip s) = c1 # c2 # c3 # c4 # c5 # c6 # rest"
    by (simp add: hex_portion_def)
  show "hex_to_rgb s = Inr (hex_pair c1 c2, hex_pair c3 c4, hex_pair c5 c6)"
    using a unfolding hex_to_rgb_def Let_def h
    by (simp add: then_py_def py_int_16_hex_pair)
next
  assume a: "\<not> startswith (py_strip s) ''rgba''
      \<and> hex_portion s = [d1, d2, d3]
      \<and> is_hex_digit d1 \<and> is_hex_digit d2 \<and> is_hex_digit d3"
  then have h: "py_lstrip CHR ''#'' (py_strip s) = [d1, d2, d3]"
    by (simp add: hex_portion_def)
  show "hex_to_rgb s = Inr (hex_pair d1 d1, hex_pair d2 d2, hex_pair d3 d3)"
    using a unfolding hex_to_rgb_def Let_def h
    by (simp add: then_py_def py_int_16_hex_pair)
next
  assume a: "startswith (py_strip s) ''rgba''
      \<and> py_split CHR '','' (py_replace '')'' [] (py_replace ''rgba('' [] (py_strip s)))
          = p1 # p2 # p3 # ps
      \<and> py_int 10 (py_strip p1) = Inr r \<and> py_int 10 (py_strip p2) = Inr g
      \<and> py_int 10 (py_strip p3) = Inr b"
  then have p: "py_split CHR '','' (py_replace '')'' [] (py_replace ''rgba('' [] (py_strip s)))
          = p1 # p2 # p3 # ps" by simp
  show "hex_to_rgb s = Inr (r, g, b)"
    using a unfolding hex_to_rgb_def Let_def p
    by (simp add: then_py_def py_index_def)
qed

theorem hex_to_rgb_returns_witness:
  "hex_to_rgb '' #12345'' = Inr (0, 0, 0)
   \<and> hex_to_rgb ''#FF8000'' = Inr (255, 128, 0)
   \<and> hex_to_rgb ''#abc'' = Inr (170, 187, 204)
   \<and> hex_to_rgb ''rgba(10, 20, 30, 0.4)'' = Inr (10, 20, 30)"
proof -
  have s1: "py_strip '' #12345'' = ''#12345''" "py_strip ''#FF8000'' = ''#FF8000''"
    "py_strip ''#abc'' = ''#abc''"
    "py_strip ''rgba(10, 20, 30, 0.4)'' = ''rgba(10, 20, 30, 0.4)''"
    by (simp_all add: py_strip_def str_isspace_def)
  have h1: "\<not> startswith (py_strip '' #12345'') ''rgba''
      \<and> length (hex_portion '' #12345'') \<noteq> 3 \<and> length (hex_portion '' #12345'') < 6"
    unfolding hex_portion_def s1 by (simp add: startswith_def py_lstrip_def)
  have h2: "\<not> startswith (py_strip ''#FF8000'') ''rgba''
      \<and> hex_portion ''#FF8000'' = CHR ''F'' # CHR ''F'' # CHR ''8'' # CHR ''0'' # CHR ''0'' # CHR ''0'' # []
      \<and> is_hex_digit CHR ''F'' \<and> is_hex_digit CHR ''F'' \<and> is_hex_digit CHR ''8''
      \<and> is_hex_digit CHR ''0'' \<and> is_hex_digit CHR ''0'' \<and> is_hex_digit CHR ''0''"
    unfolding hex_portion_def s1
    by (simp add: startswith_def py_lstrip_def is_hex_digit_def digit_value_def)
  have h3: "\<not> startswith (py_strip ''#abc'') ''rgba''
      \<and> hex_portion ''#abc'' = [CHR ''a'', CHR ''b'', CHR ''c'']
      \<and> is_hex_digit CHR ''a'' \<and> is_hex_digit CHR ''b'' \<and> is_hex_digit CHR ''c''"
    unfolding hex_portion_def s1
    by (simp add: startswith_def py_lstrip_def is_hex_digit_def digit_value_def)
  have h4: "startswith (py_strip ''rgba(10, 20, 30, 0.4)'') ''rgba''
      \<and> py_split CHR '','' (py_replace '')'' [] (py_replace ''rgba('' []
            (py_strip ''rgba(10, 20, 30, 0.4)''))) = ''10'' # '' 20'' # '' 30'' # ['' 0.4'']
      \<and> py_int 10 (py_strip ''10'') = Inr 10 \<and> py_int 10 (py_strip '' 20'') = Inr 20
      \<and> py_int 10 (py_strip '' 30'') = Inr 30"
    unfolding s1
    by (simp add: startswith_def py_strip_def str_isspace_def py_int_def int_isspace_def
        digit_value_def digit_run_ok_def int_max_str_digits_def)
  have v: "hex_pair CHR ''F'' CHR ''F'' = 255" "hex_pair CHR ''8'' CHR ''0'' = 128"
    "hex_pair CHR ''0'' CHR ''0'' = 0" "hex_pair CHR ''a'' CHR ''a'' = 170"
    "hex_pair CHR ''b'' CHR ''b'' = 187" "hex_pair CHR ''c'' CHR ''c'' = 204"
    by (simp_all add: hex_pair_def digit_value_def)
  have c1: "hex_to_rgb '' #12345'' = Inr (0, 0, 0)"
    using hex_to_rgb_returns [of "'' #12345''", THEN conjunct1] h1 by (rule mp)
  have c2: "hex_to_rgb ''#FF8000'' = Inr (255, 128, 0)"
    using hex_to_rgb_returns [of "''#FF8000''" "CHR ''F''" "CHR ''F''" "CHR ''8''" "CHR ''0''"
        "CHR ''0''" "CHR ''0''" "[]", THEN conjunct2, THEN conjunct1, THEN mp, OF h2]
    by (simp only: v)
  have c3: "hex_to_rgb ''#abc'' = Inr (170, 187, 204)"
    using hex_to_rgb_returns [where s = "''#abc''" and ?d1.0 = "CHR ''a''" and ?d2.0 = "CHR ''b''"
        and ?d3.0 = "CHR ''c''", THEN conjunct2, THEN conjunct2, THEN conjunct1, THEN mp, OF h3]
    by (simp only: v)
  have c4: "hex_to_rgb ''rgba(10, 20, 30, 0.4)'' = Inr (10, 20, 30)"
    by (rule hex_to_rgb_returns [where s = "''rgba(10, 20, 30, 0.4)''",
          THEN conjunct2, THEN conjunct2, THEN conjunct2, THEN mp, OF h4])
  show ?thesis by (intro conjI c1 c2 c3 c4)
qed


subsection \<open>The loops of the parsers\<close>

text \<open>Each loop keeps, in order, the entries whose \<open>visible\<close> is not false.\<close>

lemma parse_stroke_loop_filter:
  "parse_stroke_loop ss acc = acc @ map stroke_layer (filter (\<lambda>s. visible s \<noteq> Some False) ss)"
  by (induction ss arbitrary: acc) (auto simp: get_or_def split: option.splits)

lemma parse_fills_loop_filter:
  "parse_fills_loop fs acc
   = acc @ map (\<lambda>f. fill_layer f True) (filter (\<lambda>f. visible f \<noteq> Some False) fs)"
  by (induction fs arbitrary: acc) (auto simp: get_or_def Let_def split: option.splits)

lemma parse_effects_loop_filter:
  "parse_effects_loop es sh bl =
     (sh @ map (\<lambda>e. shadow_effect e (get_or (ef_type e) []))
             (filter (\<lambda>e. ef_visible e \<noteq> Some False \<and> is_shadow e) es),
      bl @ map (\<lambda>e. blur_effect e (get_or (ef_type e) []))
             (filter (\<lambda>e. ef_visible e \<noteq> Some False \<and> is_blur e) es))"
  by (induction es arbitrary: sh bl)
     (auto simp: get_or_def Let_def is_shadow_def is_blur_def split: option.splits)

lemma text_fill_scan_find:
  "text_fill_scan fs =
     (case List.find (\<lambda>f. visible f \<noteq> Some False
              \<and> (paint_type f = Some ''SOLID'' \<or> py_in ''GRADIENT'' (get_or (paint_type f) []))) fs of
        None \<Rightarrow> (None, None)
      | Some f \<Rightarrow>
          if paint_type f = Some ''SOLID''
          then (Some (from_figma (get_or (color f) []) (get_or (opacity f) (PFloat (Fin 1)))), None)
          else (None, Some (gradient_def (get_or (paint_type f) []) f)))"
  by (induction fs) (auto simp: get_or_def split: option.splits)

lemma text_fill_scan_one: "fst (text_fill_scan fs) = None \<or> snd (text_fill_scan fs) = None"
  by (induction fs) auto


lemmas example_defs = empty_node_def empty_paint_def empty_effect_def red_paint_def
  hidden_paint_def image_paint_def gradient_paint_def hidden_shadow_def layer_blur_def


subsection \<open>\<open>parse_stroke\<close>\<close>

text \<open>
  C5. \<open>parse_stroke\<close> returns \<open>None\<close> when the list of strokes is empty (or absent),
  when \<open>strokeWeight\<close> equals 0 (or is absent), and when no stroke is left after the
  entries whose \<open>visible\<close> is false are dropped.  A \<open>StrokeInfo\<close> that is returned
  has a list of colors that is not empty.
\<close>

theorem parse_stroke_absent_or_nonempty:
  "(get_or (strokes nd) [] = [] \<longrightarrow> parse_stroke nd = None)
   \<and> (num_eq (get_or (strokeWeight nd) (PInt 0)) 0 \<longrightarrow> parse_stroke nd = None)
   \<and> (filter (\<lambda>s. visible s \<noteq> Some False) (get_or (strokes nd) []) = []
        \<longrightarrow> parse_stroke nd = None)
   \<and> (\<forall>info. parse_stroke nd = Some info \<longrightarrow> si_colors info \<noteq> [])"
  by (auto simp: parse_stroke_def Let_def parse_stroke_loop_filter split: if_splits)

theorem parse_stroke_absent_or_nonempty_witness:
  "parse_stroke (empty_node\<lparr>strokes := Some [], strokeWeight := Some (PInt 2)\<rparr>) = None
   \<and> parse_stroke (empty_node\<lparr>strokes := Some [red_paint], strokeWeight := Some (PInt 0)\<rparr>) = None
   \<and> parse_stroke (empty_node\<lparr>strokes := Some [hidden_paint], strokeWeight := Some (PInt 2)\<rparr>) = None
   \<and> (\<exists>info. parse_stroke (empty_node\<lparr>strokes := Some [red_paint], strokeWeight := Some (PInt 2)\<rparr>)
          = Some info \<and> si_weight info = PInt 2 \<and> si_colors info = [stroke_layer red_paint]
          \<and> si_colors info \<noteq> [])"
proof -
  let ?n1 = "empty_node\<lparr>strokes := Some [], strokeWeight := Some (PInt 2)\<rparr>"
  let ?n2 = "empty_node\<lparr>strokes := Some [red_paint], strokeWeight := Some (PInt 0)\<rparr>"
  let ?n3 = "empty_node\<lparr>strokes := Some [hidden_paint], strokeWeight := Some (PInt 2)\<rparr>"
  let ?n4 = "empty_node\<lparr>strokes := Some [red_paint], strokeWeight := Some (PInt 2)\<rparr>"
  have h1: "get_or (strokes ?n1) [] = []"
    by (simp add: get_or_def)
  have h2: "num_eq (get_or (strokeWeight ?n2) (PInt 0)) 0"
    by (simp add: get_or_def)
  have h3: "filter (\<lambda>s. visible s \<noteq> Some False) (get_or (strokes ?n3) []) = []"
    by (simp add: get_or_def example_defs)
  have e4: "parse_stroke ?n4 = Some
      \<lparr>si_weight = PInt 2, si_colors = [stroke_layer red_paint], si_align = ''INSIDE'',
       si_cap = ''NONE'', si_join = ''MITER'', si_dashes = [], si_individual_weights = None\<rparr>"
    by (simp add: parse_stroke_def get_or_def example_defs)
  have c1: "parse_stroke ?n1 = None"
    using parse_stroke_absent_or_nonempty [of ?n1] h1 by blast
  have c2: "parse_stroke ?n2 = None"
    using parse_stroke_absent_or_nonempty [of ?n2] h2 by blast
  have c3: "parse_stroke ?n3 = None"
    using parse_stroke_absent_or_nonempty [of ?n3] h3 by blast
  have c4: "si_colors \<lparr>si_weight = PInt 2, si_colors = [stroke_layer red_paint],
       si_align = ''INSIDE'', si_cap = ''NONE'', si_join = ''MITER'', si_dashes = [],
       si_individual_weights = None\<rparr> \<noteq> []"
    using parse_stroke_absent_or_nonempty [of ?n4] e4 by blast
  show ?thesis using c1 c2 c3 c4 e4 by simp
qed

subsection \<open>\<open>parse_corners\<close>\<close>

text \<open>
  C6. When \<open>rectangleCornerRadii\<close> is a list of four elements, \<open>parse_corners\<close>
  returns them in the order top left, top right, bottom right, bottom left, whatever
  \<open>cornerRadius\<close> is.  With no list of four elements, a \<open>cornerRadius\<close> greater than
  0 gives four equal corners, and anything else gives \<open>None\<close>.
\<close>

theorem parse_corners_prefers_array:
  "(rectangleCornerRadii nd = Some [a, b, c, d] \<longrightarrow>
      parse_corners nd
        = Some \<lparr>top_left = a, top_right = b, bottom_right = c, bottom_left = d\<rparr>)
   \<and> (length (get_or (rectangleCornerRadii nd) []) \<noteq> 4 \<longrightarrow>
      parse_corners nd =
        (let cr = get_or (cornerRadius nd) (PInt 0) in
         if num_gt cr 0
         then Some \<lparr>top_left = cr, top_right = cr, bottom_right = cr, bottom_left = cr\<rparr>
         else None))"
  by (auto simp: parse_corners_def Let_def get_or_def)

theorem parse_corners_prefers_array_witness:
  "parse_corners (empty_node\<lparr>rectangleCornerRadii := Some [PInt 1, PInt 2, PInt 3, PInt 4],
                             cornerRadius := Some (PInt 9)\<rparr>)
     = Some \<lparr>top_left = PInt 1, top_right = PInt 2, bottom_right = PInt 3, bottom_left = PInt 4\<rparr>
   \<and> parse_corners (empty_node\<lparr>cornerRadius := Some (PInt 4)\<rparr>)
     = Some \<lparr>top_left = PInt 4, top_right = PInt 4, bottom_right = PInt 4, bottom_left = PInt 4\<rparr>
   \<and> parse_corners (empty_node\<lparr>rectangleCornerRadii := Some [PInt 1, PInt 2, PInt 3],
                               cornerRadius := Some (PFloat (Fin 0))\<rparr>) = None"
proof -
  let ?n1 = "empty_node\<lparr>rectangleCornerRadii := Some [PInt 1, PInt 2, PInt 3, PInt 4],
                          cornerRadius := Some (PInt 9)\<rparr>"
  let ?n2 = "empty_node\<lparr>cornerRadius := Some (PInt 4)\<rparr>"
  let ?n3 = "empty_node\<lparr>rectangleCornerRadii := Some [PInt 1, PInt 2, PInt 3],
                          cornerRadius := Some (PFloat (Fin 0))\<rparr>"
  have h1: "rectangleCornerRadii ?n1 = Some [PInt 1, PInt 2, PInt 3, PInt 4]" by simp
  have h2: "length (get_or (rectangleCornerRadii ?n2) []) \<noteq> 4"
    by (simp add: get_or_def empty_node_def)
  have h3: "length (get_or (rectangleCornerRadii ?n3) []) \<noteq> 4"
    by (simp add: get_or_def)
  have c1: "parse_corners ?n1
      = Some \<lparr>top_left = PInt 1, top_right = PInt 2, bottom_right = PInt 3, bottom_left = PInt 4\<rparr>"
    using parse_corners_prefers_array [of ?n1 "PInt 1" "PInt 2" "PInt 3" "PInt 4"] h1 by blast
  have c2: "parse_corners ?n2
      = Some \<lparr>top_left = PInt 4, top_right = PInt 4, bottom_right = PInt 4, bottom_left = PInt 4\<rparr>"
    using parse_corners_prefers_array [of ?n2] h2 by (simp add: get_or_def Let_def)
  have c3: "parse_corners ?n3 = None"
    using parse_corners_prefers_array [of ?n3] h3 by (simp add: get_or_def Let_def)
  show ?thesis using c1 c2 c3 by simp
qed


subsection \<open>Hidden fills, strokes and effects\<close>

text \<open>
  C8. The sequences that \<open>parse_fills\<close>, \<open>parse_stroke\<close> and \<open>parse_effects\<close> return
  are made, in order, from the entries whose \<open>visible\<close> is not false, so no entry with
  \<open>visible\<close> false appears in them, and every layer of \<open>parse_fills\<close> has its
  \<open>visible\<close> field true.  For two fills of which only the second has \<open>visible\<close>
  false, \<open>parse_fills\<close> returns the one layer of the first.
\<close>

theorem invisible_entries_dropped:
  "parse_fills nd = map (\<lambda>f. fill_layer f True)
                       (filter (\<lambda>f. visible f \<noteq> Some False) (get_or (fills nd) []))
   \<and> (\<forall>layer \<in> set (parse_fills nd). fl_visible layer)
   \<and> (\<forall>info. parse_stroke nd = Some info \<longrightarrow>
         si_colors info = map stroke_layer
                            (filter (\<lambda>s. visible s \<noteq> Some False) (get_or (strokes nd) [])))
   \<and> parse_effects nd =
       (map (\<lambda>e. shadow_effect e (get_or (ef_type e) []))
            (filter (\<lambda>e. ef_visible e \<noteq> Some False \<and> is_shadow e) (get_or (effects nd) [])),
        map (\<lambda>e. blur_effect e (get_or (ef_type e) []))
            (filter (\<lambda>e. ef_visible e \<noteq> Some False \<and> is_blur e) (get_or (effects nd) [])))
   \<and> (fills nd = Some [f1, f2] \<and> visible f1 \<noteq> Some False \<and> visible f2 = Some False
        \<longrightarrow> parse_fills nd = [fill_layer f1 True])"
proof -
  have a: "parse_fills nd = map (\<lambda>f. fill_layer f True)
             (filter (\<lambda>f. visible f \<noteq> Some False) (get_or (fills nd) []))"
    by (simp add: parse_fills_def parse_fills_loop_filter)
  have b: "\<forall>layer \<in> set (parse_fills nd). fl_visible layer"
    unfolding a by (auto simp: fill_layer_def Let_def)
  have c: "\<forall>info. parse_stroke nd = Some info \<longrightarrow>
         si_colors info = map stroke_layer
           (filter (\<lambda>s. visible s \<noteq> Some False) (get_or (strokes nd) []))"
    by (auto simp: parse_stroke_def Let_def parse_stroke_loop_filter split: if_splits)
  have d: "parse_effects nd =
       (map (\<lambda>e. shadow_effect e (get_or (ef_type e) []))
            (filter (\<lambda>e. ef_visible e \<noteq> Some False \<and> is_shadow e) (get_or (effects nd) [])),
        map (\<lambda>e. blur_effect e (get_or (ef_type e) []))
            (filter (\<lambda>e. ef_visible e \<noteq> Some False \<and> is_blur e) (get_or (effects nd) [])))"
    by (simp add: parse_effects_def parse_effects_loop_filter)
  have e: "fills nd = Some [f1, f2] \<and> visible f1 \<noteq> Some False \<and> visible f2 = Some False
        \<longrightarrow> parse_fills nd = [fill_layer f1 True]"
    unfolding a by (simp add: get_or_def)
  from a b c d e show ?thesis by blast
qed

theorem invisible_entries_dropped_witness:
  "parse_fills (empty_node\<lparr>fills := Some [red_paint, hidden_paint]\<rparr>) = [fill_layer red_paint True]
   \<and> length (parse_fills (empty_node\<lparr>fills := Some [red_paint, hidden_paint]\<rparr>)) = 1
   \<and> parse_effects (empty_node\<lparr>effects := Some [hidden_shadow, layer_blur]\<rparr>)
       = ([], [\<lparr>be_type = ''LAYER_BLUR'', be_radius = PInt 4\<rparr>])"
proof -
  let ?n = "empty_node\<lparr>fills := Some [red_paint, hidden_paint]\<rparr>"
  let ?m = "empty_node\<lparr>effects := Some [hidden_shadow, layer_blur]\<rparr>"
  have h: "fills ?n = Some [red_paint, hidden_paint] \<and> visible red_paint \<noteq> Some False
           \<and> visible hidden_paint = Some False"
    by (simp add: example_defs)
  have c1: "parse_fills ?n = [fill_layer red_paint True]"
    using invisible_entries_dropped [of ?n red_paint hidden_paint] h by blast
  have c2: "parse_effects ?m = ([], [\<lparr>be_type = ''LAYER_BLUR'', be_radius = PInt 4\<rparr>])"
    using invisible_entries_dropped [of ?m red_paint hidden_paint]
    by (simp add: get_or_def example_defs is_shadow_def is_blur_def blur_effect_def)
  show ?thesis using c1 c2 by simp
qed

subsection \<open>\<open>parse_text_style\<close>\<close>

text \<open>
  C9. The color and the gradient of the text style come from the first fill that is
  visible and is \<open>SOLID\<close> or has \<open>GRADIENT\<close> in its type: a visible fill of another
  type, such as \<open>IMAGE\<close>, is passed over and the scan goes on.  At most one of the
  color and the gradient is set.
\<close>

theorem text_fill_first_solid_or_gradient:
  "(ts_color (parse_text_style nd), ts_gradient (parse_text_style nd)) =
     (case List.find (\<lambda>f. visible f \<noteq> Some False
              \<and> (paint_type f = Some ''SOLID'' \<or> py_in ''GRADIENT'' (get_or (paint_type f) [])))
            (get_or (fills nd) []) of
        None \<Rightarrow> (None, None)
      | Some f \<Rightarrow>
          if paint_type f = Some ''SOLID''
          then (Some (from_figma (get_or (color f) []) (get_or (opacity f) (PFloat (Fin 1)))), None)
          else (None, Some (gradient_def (get_or (paint_type f) []) f)))
   \<and> (ts_color (parse_text_style nd) = None \<or> ts_gradient (parse_text_style nd) = None)"
proof -
  have sel: "(ts_color (parse_text_style nd), ts_gradient (parse_text_style nd))
             = text_fill_scan (get_or (fills nd) [])"
    by (simp add: parse_text_style_def Let_def split: prod.splits)
  have one: "ts_color (parse_text_style nd) = None \<or> ts_gradient (parse_text_style nd) = None"
    using text_fill_scan_one [of "get_or (fills nd) []"] sel
    by (metis fst_conv snd_conv)
  show ?thesis using sel one by (simp add: text_fill_scan_find)
qed

theorem text_fill_first_solid_or_gradient_witness:
  "ts_color (parse_text_style (empty_node\<lparr>fills := Some [hidden_paint, image_paint, red_paint]\<rparr>))
     = Some \<lparr>cv_r = PInt 1, cv_g = PInt 0, cv_b = PInt 0, cv_a = PFloat (Fin 1)\<rparr>
   \<and> ts_gradient (parse_text_style (empty_node\<lparr>fills := Some [hidden_paint, image_paint, red_paint]\<rparr>))
     = None
   \<and> ts_color (parse_text_style (empty_node\<lparr>fills := Some [image_paint, gradient_paint, red_paint]\<rparr>))
     = None
   \<and> ts_gradient (parse_text_style (empty_node\<lparr>fills := Some [image_paint, gradient_paint, red_paint]\<rparr>))
     = Some \<lparr>gd_type = ''LINEAR'', gd_stops = [], gd_handle_positions = [],
             gd_opacity = PFloat (Fin 1)\<rparr>"
proof -
  let ?n = "empty_node\<lparr>fills := Some [hidden_paint, image_paint, red_paint]\<rparr>"
  let ?m = "empty_node\<lparr>fills := Some [image_paint, gradient_paint, red_paint]\<rparr>"
  have c1: "(ts_color (parse_text_style ?n), ts_gradient (parse_text_style ?n))
     = (Some \<lparr>cv_r = PInt 1, cv_g = PInt 0, cv_b = PInt 0, cv_a = PFloat (Fin 1)\<rparr>, None)"
    using text_fill_first_solid_or_gradient [of ?n]
    by (simp add: get_or_def example_defs startswith_def from_figma_def dict_get_def)
  have c2: "(ts_color (parse_text_style ?m), ts_gradient (parse_text_style ?m))
     = (None, Some \<lparr>gd_type = ''LINEAR'', gd_stops = [], gd_handle_positions = [],
             gd_opacity = PFloat (Fin 1)\<rparr>)"
    using text_fill_first_solid_or_gradient [of ?m]
    by (simp add: get_or_def example_defs startswith_def gradient_def_def)
  show ?thesis using c1 c2 by simp
qed


subsection \<open>Doubles\<close>








lemma round_half_even_bounds:
  "of_int (round_half_even z) \<le> z + 1 / 2" "z - 1 / 2 \<le> of_int (round_half_even z)"
  unfolding round_half_even_def Let_def by (auto; linarith)+




















subsection \<open>Integer channels\<close>






subsection \<open>\<open>rgba_to_hex\<close>\<close>










end
